theory Spec2Isabelle
  imports Complex_Main "HOL-Library.Word" "HOL-Library.Log_Nat"
begin

section \<open>Python string primitives used by the scripts\<close>

text \<open>
  A Python \<open>str\<close> is modelled as a \<open>string\<close>; a \<open>char\<close> stands for the code point of
  the same number (0 to 255).  The functions below are the library calls the scripts make on
  strings: \<open>str.strip()\<close>, \<open>str.startswith\<close>, the \<open>in\<close> operator, \<open>str.split(sep)\<close>
  with a one-character separator and \<open>str.replace(old, new)\<close> with a non-empty \<open>old\<close>.
\<close>

definition py_isspace :: "char \<Rightarrow> bool" where
  \<comment> \<open>\<open>str.isspace\<close> on one code point below 256: TAB, LF, VT, FF, CR, FS, GS, RS, US,
      SPACE, NEL and NBSP.\<close>
  "py_isspace c = (of_char c \<in> set [9, 10, 11, 12, 13, 28, 29, 30, 31, 32, 133, 160 :: nat])"

definition strip :: "string \<Rightarrow> string" where
  "strip s = rev (dropWhile py_isspace (rev (dropWhile py_isspace s)))"

fun startswith :: "string \<Rightarrow> string \<Rightarrow> bool" where
  "startswith s [] = True"
| "startswith [] (p # ps) = False"
| "startswith (c # cs) (p # ps) = (c = p \<and> startswith cs ps)"

fun contains :: "string \<Rightarrow> string \<Rightarrow> bool" where
  \<comment> \<open>\<open>contains s p\<close> is Python's \<open>p in s\<close>.\<close>
  "contains [] p = (p = [])"
| "contains (c # cs) p = (startswith (c # cs) p \<or> contains cs p)"

fun split_char :: "char \<Rightarrow> string \<Rightarrow> string list" where
  \<comment> \<open>\<open>s.split(sep)\<close> for a separator of one character.\<close>
  "split_char sep [] = [[]]"
| "split_char sep (c # cs) =
     (if c = sep then [] # split_char sep cs
      else (case split_char sep cs of
              [] \<Rightarrow> [[c]]
            | w # ws \<Rightarrow> (c # w) # ws))"

function replace_py :: "string \<Rightarrow> string \<Rightarrow> string \<Rightarrow> string" where
  \<comment> \<open>\<open>s.replace(old, new)\<close> for a non-empty \<open>old\<close>: leftmost occurrences first, not
      overlapping.\<close>
  "replace_py old new s =
     (if s = [] then []
      else if old \<noteq> [] \<and> startswith s old then new @ replace_py old new (drop (length old) s)
      else hd s # replace_py old new (tl s))"
  by pat_completeness auto
termination
  by (relation "measure (\<lambda>(old, new, s). length s)") auto

declare replace_py.simps [simp del]

definition digit_char :: "nat \<Rightarrow> char" where
  "digit_char d = char_of (48 + d)"

fun str_nat :: "nat \<Rightarrow> string" where
  \<comment> \<open>\<open>str(n)\<close> for a non-negative integer.\<close>
  "str_nat n = (if n < 10 then [digit_char n] else str_nat (n div 10) @ [digit_char (n mod 10)])"

declare str_nat.simps [simp del]

section \<open>bytes.fromhex and bytes.hex\<close>

type_synonym byte = "8 word"

definition c_isspace :: "char \<Rightarrow> bool" where
  \<comment> \<open>The ASCII whitespace that \<open>bytes.fromhex\<close> skips: TAB, LF, VT, FF, CR and SPACE.\<close>
  "c_isspace c = (of_char c \<in> set [9, 10, 11, 12, 13, 32 :: nat])"

definition hex_value :: "char \<Rightarrow> nat option" where
  "hex_value c =
     (let n = of_char c :: nat in
      if 48 \<le> n \<and> n \<le> 57 then Some (n - 48)
      else if 97 \<le> n \<and> n \<le> 102 then Some (n - 87)
      else if 65 \<le> n \<and> n \<le> 70 then Some (n - 55)
      else None)"

fun fromhex :: "string \<Rightarrow> byte list option" where
  \<comment> \<open>\<open>bytes.fromhex\<close>: whitespace is skipped before a byte, then two adjacent hexadecimal
      digits are required; \<open>None\<close> is the \<open>ValueError\<close>.\<close>
  "fromhex [] = Some []"
| "fromhex [c] = (if c_isspace c then Some [] else None)"
| "fromhex (c # d # cs) =
     (if c_isspace c then fromhex (d # cs)
      else (case hex_value c of
              None \<Rightarrow> None
            | Some hi \<Rightarrow>
               (case hex_value d of
                  None \<Rightarrow> None
                | Some lo \<Rightarrow>
                   (case fromhex cs of
                      None \<Rightarrow> None
                    | Some bs \<Rightarrow> Some (of_nat (hi * 16 + lo) # bs)))))"

definition hex_digit :: "nat \<Rightarrow> char" where
  "hex_digit d = (if d < 10 then char_of (48 + d) else char_of (87 + d))"

definition hex_byte :: "byte \<Rightarrow> string" where
  "hex_byte b = [hex_digit (unat b div 16), hex_digit (unat b mod 16)]"

definition hex :: "byte list \<Rightarrow> string" where
  \<comment> \<open>\<open>bytes.hex()\<close>: two lower-case digits per byte.\<close>
  "hex bs = concat (map hex_byte bs)"

section \<open>os.path.join\<close>

definition path_join :: "string \<Rightarrow> string \<Rightarrow> string" where
  \<comment> \<open>\<open>os.path.join(a, b)\<close> in its POSIX flavour: an absolute \<open>b\<close> replaces \<open>a\<close>, and a
      separator is inserted unless \<open>a\<close> is empty or already ends with one.\<close>
  "path_join a b =
     (if startswith b ''/'' then b
      else if a = [] \<or> last a = CHR ''/'' then a @ b
      else a @ ''/'' @ b)"

section \<open>The float arithmetic of the duration estimate\<close>

definition round_half_even :: "rat \<Rightarrow> int" where
  "round_half_even q =
     (let f = \<lfloor>q\<rfloor>; r = q - of_int f in
      if r < 1 / 2 then f
      else if 1 / 2 < r then f + 1
      else if even f then f else f + 1)"

definition binary64 :: "rat \<Rightarrow> rat" where
  \<comment> \<open>The double nearest to a rational (ties to even), in the range of normal doubles:
      a 53-bit significand scaled by a power of two.\<close>
  "binary64 q =
     (if q = 0 then 0
      else
        let a = \<bar>q\<bar>;
            (n, d) = quotient_of a;
            e0 = bitlen n - bitlen d;
            e = (if 2 powi e0 \<le> a then e0 else e0 - 1);
            m = round_half_even (a * 2 powi (52 - e))
        in sgn q * (of_int m * 2 powi (e - 52)))"

definition py_truediv :: "int \<Rightarrow> int \<Rightarrow> rat" where
  \<comment> \<open>\<open>a / b\<close> on Python integers with \<open>b \<noteq> 0\<close>: the correctly rounded double of the
      exact quotient.\<close>
  "py_truediv a b = binary64 (of_int a / of_int b)"

definition format_2f :: "rat \<Rightarrow> string" where
  \<comment> \<open>\<open>f"{x:.2f}"\<close> for a double of exact value \<open>x\<close>: the exact value rounded to two
      decimals, ties to even; a negative value keeps its sign even when it rounds to zero.\<close>
  "format_2f x =
     (let n = nat (round_half_even (\<bar>x\<bar> * 100));
          frac = n mod 100
      in (if x < 0 then ''-'' else '''') @ str_nat (n div 100) @ ''.'' @
         [digit_char (frac div 10), digit_char (frac mod 10)])"

section \<open>capture\_samples.py: capture\_sample\<close>

definition OUTPUT_DIR :: string where
  "OUTPUT_DIR = ''training_samples''"

definition TIMEOUT :: rat where
  "TIMEOUT = 15"

definition WAV_START :: string where
  "WAV_START = ''---WAV_START''"

definition WAV_END :: string where
  "WAV_END = ''---WAV_END---''"

text \<open>
  What the function does to the outside world, in order: the serial port, the console and
  the file system.
\<close>

datatype effect =
    ResetInputBuffer
  | SerialWrite string
  | Print string
  | MakeDirs string
  | WriteFile string "byte list"

text \<open>
  One pass through the \<open>while True\<close> loop consumes one attempt: the value of
  \<open>time.time() - start_time\<close> at the deadline check, and what \<open>ser.readline()\<close> with
  the decoding then did: it raised (with the text of the exception) or gave a decoded text.
\<close>

datatype read = ReadError string | ReadLine string

type_synonym attempt = "rat \<times> read"

record capture_state =
  capturing :: bool
  hex_data :: string
  actual_label :: string
  trace :: "effect list"

definition emit :: "effect \<Rightarrow> capture_state \<Rightarrow> capture_state" where
  "emit e st = st\<lparr>trace := trace st @ [e]\<rparr>"

datatype loop_exit = TimedOut | EndSeen | StillReading

definition marker_label :: "string \<Rightarrow> string" where
  \<comment> \<open>\<open>line.split(":")[1].replace("---", "").strip()\<close>, evaluated only when the line
      has a colon, so that the split has a second element.\<close>
  "marker_label line =
     (case split_char CHR '':'' line of
        _ # seg # _ \<Rightarrow> strip (replace_py ''---'' [] seg)
      | _ \<Rightarrow> [])"

fun read_loop :: "attempt list \<Rightarrow> capture_state \<Rightarrow> loop_exit \<times> capture_state" where
  "read_loop [] st = (StillReading, st)"
| "read_loop ((elapsed, r) # rest) st =
     (if TIMEOUT < elapsed then (TimedOut, emit (Print ''ERROR: Timeout waiting for data'') st)
      else
        (case r of
           ReadError e \<Rightarrow> read_loop rest (emit (Print (''Read error: '' @ e)) st)
         | ReadLine raw \<Rightarrow>
            (let line = strip raw in
             if line = [] then read_loop rest st
             else
               let st1 = (if \<not> capturing st then emit (Print (''  '' @ line)) st else st) in
               if startswith line WAV_START then
                 read_loop rest
                   (emit (Print (CHR 0x0A # ''  Receiving WAV data...''))
                      (st1\<lparr>capturing := True,
                           actual_label :=
                             (if CHR '':'' \<in> set line then marker_label line
                              else actual_label st1)\<rparr>))
               else if contains line WAV_END then (EndSeen, st1)
               else if capturing st1 then read_loop rest (st1\<lparr>hex_data := hex_data st1 @ line\<rparr>)
               else read_loop rest st1)))"

text \<open>
  The surroundings of one call: the text of \<open>datetime.now().strftime("%Y%m%d_%H%M%S")\<close>,
  the wording of the interpreter's \<open>ValueError\<close> for a rejected hex text, and which paths
  make \<open>os.makedirs\<close> or the opening and writing of the file raise \<open>OSError\<close>.
\<close>

record env =
  timestamp :: string
  value_error_text :: "string \<Rightarrow> string"
  makedirs_raises :: "string \<Rightarrow> bool"
  write_raises :: "string \<Rightarrow> bool"

datatype outcome = Returned bool | RaisedOSError | NotReturned

definition duration :: "nat \<Rightarrow> rat" where
  \<comment> \<open>\<open>(file_size - 44) / (16000 * 2)\<close>\<close>
  "duration file_size = py_truediv (int file_size - 44) (16000 * 2)"

definition init_state :: "string \<Rightarrow> capture_state" where
  "init_state label =
     \<lparr>capturing = False, hex_data = [], actual_label = label,
      trace = [ResetInputBuffer,
               SerialWrite (label @ [CHR 0x0A]),
               Print (CHR 0x0A # ''Sent command: '' @ label),
               Print ''Waiting for ESP32 to record...'']\<rparr>"

definition save_sample :: "env \<Rightarrow> capture_state \<Rightarrow> byte list \<Rightarrow> outcome \<times> effect list" where
  \<comment> \<open>Lines 137 to 155: directory, file name, file, report.\<close>
  "save_sample ev st binary_data =
     (let label_dir = path_join OUTPUT_DIR (actual_label st) in
      if makedirs_raises ev label_dir then (RaisedOSError, trace st)
      else
        let filename = path_join label_dir (actual_label st @ ''_'' @ timestamp ev @ ''.wav'') in
        if write_raises ev filename then (RaisedOSError, trace st @ [MakeDirs label_dir])
        else
          let file_size = length binary_data in
          (Returned True,
           trace st @
           [MakeDirs label_dir,
            WriteFile filename binary_data,
            Print (CHR 0x0A # ''  Saved: '' @ filename),
            Print (''  Size: '' @ str_nat file_size @ '' bytes ('' @
                   format_2f (duration file_size) @ '' seconds)'')]))"

definition capture_sample :: "env \<Rightarrow> attempt list \<Rightarrow> string \<Rightarrow> outcome \<times> effect list" where
  "capture_sample ev attempts label =
     (case read_loop attempts (init_state label) of
        (StillReading, st) \<Rightarrow> (NotReturned, trace st)
      | (TimedOut, st) \<Rightarrow> (Returned False, trace st)
      | (EndSeen, st) \<Rightarrow>
          if hex_data st = [] then
            (Returned False, trace st @ [Print ''ERROR: No audio data received''])
          else
            (case fromhex (hex_data st) of
               None \<Rightarrow>
                 (Returned False,
                  trace st @
                  [Print (''ERROR: Invalid hex data: '' @ value_error_text ev (hex_data st))])
             | Some binary_data \<Rightarrow> save_sample ev st binary_data))"

fun is_fs_write :: "effect \<Rightarrow> bool" where
  "is_fs_write (MakeDirs p) = True"
| "is_fs_write (WriteFile p bs) = True"
| "is_fs_write e = False"

fun written_files :: "effect list \<Rightarrow> (string \<times> byte list) list" where
  "written_files [] = []"
| "written_files (WriteFile p bs # es) = (p, bs) # written_files es"
| "written_files (e # es) = written_files es"

text \<open>
  The vocabulary of the protocol, in the terms of the loop: the \<open>line\<close> of an attempt is the
  stripped text the loop tests (empty when the read raised), an attempt is in time when the
  deadline check lets it through, a start marker is a line the first test accepts, an end
  marker a line that reaches the second test and passes it, and a plain line passes neither.
\<close>

definition in_time :: "attempt \<Rightarrow> bool" where
  "in_time a = (\<not> TIMEOUT < fst a)"

definition line_of :: "attempt \<Rightarrow> string" where
  "line_of a = (case snd a of ReadError e \<Rightarrow> [] | ReadLine raw \<Rightarrow> strip raw)"

definition is_start :: "attempt \<Rightarrow> bool" where
  "is_start a = startswith (line_of a) WAV_START"

definition is_end :: "attempt \<Rightarrow> bool" where
  "is_end a = (\<not> startswith (line_of a) WAV_START \<and> contains (line_of a) WAV_END)"

definition is_plain :: "attempt \<Rightarrow> bool" where
  "is_plain a = (\<not> startswith (line_of a) WAV_START \<and> \<not> contains (line_of a) WAV_END)"

definition echo :: "bool \<Rightarrow> attempt \<Rightarrow> effect list" where
  \<comment> \<open>What the loop prints for an attempt that is not a marker.\<close>
  "echo cap a =
     (case snd a of
        ReadError e \<Rightarrow> [Print (''Read error: '' @ e)]
      | ReadLine raw \<Rightarrow> (if strip raw = [] \<or> cap then [] else [Print (''  '' @ strip raw)]))"

definition label_segment :: "string \<Rightarrow> string" where
  \<comment> \<open>The text between the first colon of a line and the next colon or the end.\<close>
  "label_segment line =
     takeWhile (\<lambda>c. c \<noteq> CHR '':'') (tl (dropWhile (\<lambda>c. c \<noteq> CHR '':'') line))"

definition example_env :: env where
  "example_env =
     \<lparr>timestamp = ''20240131_235959'',
      value_error_text = (\<lambda>s. ''non-hexadecimal number found in fromhex() arg''),
      makedirs_raises = (\<lambda>p. False),
      write_raises = (\<lambda>p. False)\<rparr>"

section \<open>JSON values\<close>

text \<open>
  What \<open>json.loads\<close> produces: \<open>JDict\<close> lists the items of a dictionary, each key once;
  \<open>JFloat\<close> carries the exact value of a finite double.
\<close>

datatype json =
    JNull
  | JBool bool
  | JInt int
  | JFloat rat
  | JStr string
  | JList "json list"
  | JDict "(string \<times> json) list"

text \<open>
  \<open>json.loads\<close> itself is a parameter of the model: a decoder gives a value, raises
  \<open>JSONDecodeError\<close>, or raises something else (\<open>RecursionError\<close>, for one).
\<close>

datatype loads_result = Loaded json | JSONDecodeError | OtherError

section \<open>test\_voice\_pipeline.py: parse\_intent\<close>

definition py_find :: "string \<Rightarrow> char \<Rightarrow> int" where
  \<comment> \<open>\<open>s.find(c)\<close>: the lowest index of \<open>c\<close>, or \<open>-1\<close>.\<close>
  "py_find s c = (if c \<in> set s then int (length (takeWhile (\<lambda>x. x \<noteq> c) s)) else - 1)"

definition py_rfind :: "string \<Rightarrow> char \<Rightarrow> int" where
  \<comment> \<open>\<open>s.rfind(c)\<close>: the highest index of \<open>c\<close>, or \<open>-1\<close>.\<close>
  "py_rfind s c =
     (if c \<in> set s then int (length s) - 1 - int (length (takeWhile (\<lambda>x. x \<noteq> c) (rev s)))
      else - 1)"

definition py_slice :: "string \<Rightarrow> int \<Rightarrow> int \<Rightarrow> string" where
  \<comment> \<open>\<open>s[a:b]\<close> for \<open>0 \<le> a\<close> and \<open>0 \<le> b\<close>, the only case the guard lets through.\<close>
  "py_slice s a b = take (nat b - nat a) (drop (nat a) s)"

definition fallback_intent :: "string \<Rightarrow> json" where
  \<comment> \<open>\<open>{"raw": content, "actions": []}\<close>\<close>
  "fallback_intent content = JDict [(''raw'', JStr content), (''actions'', JList [])]"

definition json_text :: "string \<Rightarrow> string" where
  \<comment> \<open>Lines 171 to 177: the text handed to \<open>json.loads\<close>.\<close>
  "json_text content =
     (let json_start = py_find content CHR ''{'';
          json_end = py_rfind content CHR ''}'' + 1
      in if 0 \<le> json_start \<and> json_start < json_end
         then py_slice content json_start json_end
         else content)"

definition parse_content :: "(string \<Rightarrow> loads_result) \<Rightarrow> string \<Rightarrow> json option" where
  \<comment> \<open>Lines 168 to 185, with the outer \<open>except Exception\<close> of line 192 for what the inner
      handler does not catch; \<open>None\<close> is the \<open>return None\<close>.  Console output is left out.\<close>
  "parse_content loads content =
     (case loads (json_text content) of
        Loaded intent \<Rightarrow> Some intent
      | JSONDecodeError \<Rightarrow> Some (fallback_intent content)
      | OtherError \<Rightarrow> None)"

text \<open>
  The reply of the chat-completion endpoint: the request raised, or it gave a status and, when
  \<open>response.json()["choices"][0]["message"]["content"]\<close> can be read, that content.
\<close>

datatype chat_reply = PostRaised | Reply nat "string option"

definition parse_intent :: "(string \<Rightarrow> loads_result) \<Rightarrow> chat_reply \<Rightarrow> json option" where
  "parse_intent loads reply =
     (case reply of
        PostRaised \<Rightarrow> None
      | Reply status_code body \<Rightarrow>
          if status_code = 200 then
            (case body of
               None \<Rightarrow> None
             | Some content \<Rightarrow> parse_content loads content)
          else None)"

definition loads_digits :: "string \<Rightarrow> loads_result" where
  \<comment> \<open>A decoder for the examples: it agrees with \<open>json.loads\<close> on a text that is a plain
      decimal numeral without leading zero, and on the other texts the examples use, which
      \<open>json.loads\<close> rejects.\<close>
  "loads_digits s =
     (if s \<noteq> [] \<and> list_all (\<lambda>c. 48 \<le> (of_char c :: nat) \<and> (of_char c :: nat) \<le> 57) s \<and>
         \<not> (hd s = CHR ''0'' \<and> 1 < length s)
      then Loaded (JInt (foldl (\<lambda>n c. 10 * n + (of_char c - 48)) 0 s))
      else JSONDecodeError)"

section \<open>test\_voice\_pipeline.py: execute\_actions\<close>

datatype py_exception = TypeError | AttributeError

text \<open>One printed line of the simulation, with the value it interpolates.\<close>

datatype report =
    NoActionsToExecute
  | NoActionsFound
  | AcOn
  | AcOff
  | AcTemp json
  | AcMode "json option"
  | LightOn
  | LightOff
  | IrSend "json option"
  | UnknownAction json

fun truthy :: "json \<Rightarrow> bool" where
  "truthy JNull = False"
| "truthy (JBool b) = b"
| "truthy (JInt i) = (i \<noteq> 0)"
| "truthy (JFloat q) = (q \<noteq> 0)"
| "truthy (JStr s) = (s \<noteq> [])"
| "truthy (JList xs) = (xs \<noteq> [])"
| "truthy (JDict kvs) = (kvs \<noteq> [])"

fun num_of :: "json \<Rightarrow> rat option" where
  \<comment> \<open>The number a value is compared as; \<open>None\<close> when \<open><\<close> against an \<open>int\<close> raises.\<close>
  "num_of (JInt i) = Some (of_int i)"
| "num_of (JFloat q) = Some q"
| "num_of (JBool b) = Some (if b then 1 else 0)"
| "num_of v = None"

definition py_min :: "json \<Rightarrow> json \<Rightarrow> py_exception + json" where
  \<comment> \<open>\<open>min(a, b)\<close>: \<open>b\<close> when \<open>b < a\<close>, else \<open>a\<close>.\<close>
  "py_min a b =
     (case (num_of a, num_of b) of
        (Some x, Some y) \<Rightarrow> Inr (if y < x then b else a)
      | _ \<Rightarrow> Inl TypeError)"

definition py_max :: "json \<Rightarrow> json \<Rightarrow> py_exception + json" where
  \<comment> \<open>\<open>max(a, b)\<close>: \<open>b\<close> when \<open>b > a\<close>, else \<open>a\<close>.\<close>
  "py_max a b =
     (case (num_of a, num_of b) of
        (Some x, Some y) \<Rightarrow> Inr (if x < y then b else a)
      | _ \<Rightarrow> Inl TypeError)"

definition dict_get :: "(string \<times> json) list \<Rightarrow> string \<Rightarrow> json option" where
  \<comment> \<open>\<open>d.get(key)\<close>, where a stored \<open>null\<close> and a missing key both give \<open>None\<close>.\<close>
  "dict_get kvs k = (case map_of kvs k of None \<Rightarrow> None | Some JNull \<Rightarrow> None | Some v \<Rightarrow> Some v)"

definition ac_temp :: "json option \<Rightarrow> py_exception + json" where
  \<comment> \<open>\<open>max(16, min(30, value)) if value else 24\<close>\<close>
  "ac_temp value =
     (case value of
        None \<Rightarrow> Inr (JInt 24)
      | Some v \<Rightarrow>
          if truthy v then
            (case py_min (JInt 30) v of
               Inl e \<Rightarrow> Inl e
             | Inr m \<Rightarrow> py_max (JInt 16) m)
          else Inr (JInt 24))"

definition run_action :: "json \<Rightarrow> py_exception + report" where
  \<comment> \<open>The body of the \<open>for\<close> loop, lines 214 to 233.\<close>
  "run_action action =
     (case action of
        JDict kvs \<Rightarrow>
          (let action_type = (case map_of kvs ''type'' of None \<Rightarrow> JStr ''unknown'' | Some t \<Rightarrow> t);
               value = dict_get kvs ''value''
           in if action_type = JStr ''ac_on'' then Inr AcOn
              else if action_type = JStr ''ac_off'' then Inr AcOff
              else if action_type = JStr ''ac_temp'' then
                (case ac_temp value of Inl e \<Rightarrow> Inl e | Inr temp \<Rightarrow> Inr (AcTemp temp))
              else if action_type = JStr ''ac_mode'' then Inr (AcMode value)
              else if action_type = JStr ''light_on'' then Inr LightOn
              else if action_type = JStr ''light_off'' then Inr LightOff
              else if action_type = JStr ''ir_send'' then Inr (IrSend value)
              else Inr (UnknownAction action_type))
      | _ \<Rightarrow> Inl AttributeError)"

fun run_actions :: "json list \<Rightarrow> report list \<times> py_exception option" where
  \<comment> \<open>The \<open>for\<close> loop: the lines printed, and the exception that cut it short, if any.\<close>
  "run_actions [] = ([], None)"
| "run_actions (a # as) =
     (case run_action a of
        Inl e \<Rightarrow> ([], Some e)
      | Inr r \<Rightarrow> (case run_actions as of (rs, x) \<Rightarrow> (r # rs, x)))"

definition execute_actions :: "json option \<Rightarrow> report list \<times> py_exception option" where
  "execute_actions intent =
     (case intent of
        None \<Rightarrow> ([NoActionsToExecute], None)
      | Some (JDict kvs) \<Rightarrow>
          (case map_of kvs ''actions'' of
             None \<Rightarrow> ([NoActionsToExecute], None)
           | Some (JList actions) \<Rightarrow>
               if actions = [] then ([NoActionsFound], None) else run_actions actions
           | Some (JStr s) \<Rightarrow> if s = [] then ([NoActionsFound], None) else ([], Some AttributeError)
           | Some (JDict d) \<Rightarrow> if d = [] then ([NoActionsFound], None) else ([], Some AttributeError)
           | Some v \<Rightarrow> if truthy v then ([], Some TypeError) else ([NoActionsFound], None))
      | Some (JList xs) \<Rightarrow>
          if List.member xs (JStr ''actions'') then ([], Some AttributeError)
          else ([NoActionsToExecute], None)
      | Some (JStr s) \<Rightarrow>
          if contains s ''actions'' then ([], Some AttributeError)
          else ([NoActionsToExecute], None)
      | Some v \<Rightarrow> if truthy v then ([], Some TypeError) else ([NoActionsToExecute], None))"

section \<open>LLMtesting/test\_groq\_stt.py: transcribe\_audio\<close>

definition GROQ_API_KEY :: string where
  "GROQ_API_KEY = ''YOUR API KEY HERE''"

definition GROQ_API_URL :: string where
  "GROQ_API_URL = ''https://api.groq.com/openai/v1/audio/transcriptions''"

definition DEFAULT_MODEL :: string where
  "DEFAULT_MODEL = ''whisper-large-v3''"

definition basename :: "string \<Rightarrow> string" where
  \<comment> \<open>\<open>os.path.basename\<close>, POSIX: what follows the last separator.\<close>
  "basename p = rev (takeWhile (\<lambda>c. c \<noteq> CHR ''/'') (rev p))"

datatype stt_effect =
    Say string
  | HttpPost string string string string

text \<open>
  \<open>HttpPost url authorization filename model\<close> is the one request the function makes.  Its
  surroundings: whether the path exists, whether opening the file raises (with the text of
  the exception), and what the request does: it times out, raises, or gives a status, the
  text of the reply and what \<open>response.json()\<close> then yields (\<open>Inl\<close> when it raises).
\<close>

datatype post_result =
    PostTimeout
  | PostError string
  | PostReply nat string "string + json"

record stt_env =
  path_exists :: "string \<Rightarrow> bool"
  open_error :: "string \<Rightarrow> string option"
  post :: post_result

definition missing_key_diagnostic :: "stt_effect list" where
  "missing_key_diagnostic =
     [Say ''ERROR: Please set your Groq API key!'',
      Say ''  1. Get key from: https://console.groq.com'',
      Say ''  2. Set GROQ_API_KEY environment variable, or'',
      Say ''  3. Edit this file and replace YOUR_GROQ_API_KEY_HERE'']"

definition transcribe_audio ::
  "string \<Rightarrow> stt_env \<Rightarrow> string \<Rightarrow> string \<Rightarrow> json option \<times> stt_effect list" where
  \<comment> \<open>The first argument is the module constant \<open>GROQ_API_KEY\<close> the function reads.\<close>
  "transcribe_audio api_key ev audio_path model =
     (if api_key = ''YOUR_GROQ_API_KEY_HERE'' then (None, missing_key_diagnostic)
      else if \<not> path_exists ev audio_path then
        (None, [Say (''ERROR: File not found: '' @ audio_path)])
      else
        (case open_error ev audio_path of
           Some msg \<Rightarrow> (None, [Say (''ERROR: '' @ msg)])
         | None \<Rightarrow>
            (let request = HttpPost GROQ_API_URL (''Bearer '' @ api_key) (basename audio_path) model
             in case post ev of
                  PostTimeout \<Rightarrow> (None, [request, Say ''ERROR: Request timed out''])
                | PostError msg \<Rightarrow> (None, [request, Say (''ERROR: '' @ msg)])
                | PostReply status_code text body \<Rightarrow>
                    if status_code = 200 then
                      (case body of
                         Inr v \<Rightarrow> (Some v, [request])
                       | Inl msg \<Rightarrow> (None, [request, Say (''ERROR: '' @ msg)]))
                    else
                      (None,
                       [request,
                        Say (''ERROR: API returned '' @ str_nat status_code),
                        Say (''Response: '' @ text)]))))"

fun is_request :: "stt_effect \<Rightarrow> bool" where
  "is_request (HttpPost url auth name model) = True"
| "is_request (Say s) = False"

section \<open>Facts about the string primitives\<close>

lemma startswith_hd: "startswith s p \<Longrightarrow> p \<noteq> [] \<Longrightarrow> hd p \<in> set s"
  by (cases s; cases p) auto

lemma contains_hd: "contains s p \<Longrightarrow> p \<noteq> [] \<Longrightarrow> hd p \<in> set s"
  by (induction s) (auto dest: startswith_hd)

lemma startswith_append: "startswith (p @ s) p"
  by (induction p) auto

lemma startswith_iff: "startswith s p \<longleftrightarrow> (\<exists>t. s = p @ t)"
proof (induction s p rule: startswith.induct)
  case (1 s)
  show ?case by simp
next
  case (2 p ps)
  show ?case by simp
next
  case (3 c cs p ps)
  then show ?case by auto
qed

lemma contains_iff: "contains s p \<longleftrightarrow> (\<exists>u t. s = u @ p @ t)"
proof (induction s)
  case Nil
  show ?case by auto
next
  case (Cons c cs)
  show ?case
  proof
    assume "contains (c # cs) p"
    then consider "startswith (c # cs) p" | "contains cs p" by auto
    then show "\<exists>u t. c # cs = u @ p @ t"
    proof cases
      case 1
      then obtain t where "c # cs = p @ t" by (auto simp: startswith_iff)
      then have "c # cs = [] @ p @ t" by simp
      then show ?thesis by blast
    next
      case 2
      with Cons obtain u t where "cs = u @ p @ t" by auto
      then have "c # cs = (c # u) @ p @ t" by simp
      then show ?thesis by blast
    qed
  next
    assume "\<exists>u t. c # cs = u @ p @ t"
    then obtain u t where ut: "c # cs = u @ p @ t" by auto
    show "contains (c # cs) p"
    proof (cases u)
      case Nil
      with ut have "startswith (c # cs) p" by (auto simp: startswith_iff)
      then show ?thesis by simp
    next
      case (Cons a u')
      with ut have "cs = u' @ p @ t" by simp
      with Cons.IH have "contains cs p" by auto
      then show ?thesis by simp
    qed
  qed
qed

lemma strip_no_space: "\<forall>c \<in> set s. \<not> py_isspace c \<Longrightarrow> strip s = s"
proof -
  assume a: "\<forall>c \<in> set s. \<not> py_isspace c"
  have d: "dropWhile py_isspace t = t" if "\<forall>c \<in> set t. \<not> py_isspace c" for t
    using that by (cases t) auto
  show ?thesis
    using a by (simp add: strip_def d)
qed

lemma split_char_nonempty: "split_char sep s \<noteq> []"
  by (induction s) (auto split: list.splits)

lemma split_char_first:
  "sep \<in> set s \<Longrightarrow>
   split_char sep s =
     takeWhile (\<lambda>c. c \<noteq> sep) s # split_char sep (tl (dropWhile (\<lambda>c. c \<noteq> sep) s))"
proof (induction s)
  case Nil
  then show ?case by simp
next
  case (Cons c cs)
  show ?case
  proof (cases "c = sep")
    case True
    then show ?thesis by simp
  next
    case False
    with Cons.prems have "sep \<in> set cs" by simp
    from Cons.IH [OF this] False show ?thesis by simp
  qed
qed

lemma hd_split_char: "hd (split_char sep s) = takeWhile (\<lambda>c. c \<noteq> sep) s"
  by (induction s) (auto split: list.splits simp: split_char_nonempty)

lemma marker_label_segment:
  assumes "CHR '':'' \<in> set line"
  shows "marker_label line = strip (replace_py ''---'' [] (label_segment line))"
proof -
  let ?rest = "tl (dropWhile (\<lambda>c. c \<noteq> CHR '':'') line)"
  obtain w ws where ws: "split_char CHR '':'' ?rest = w # ws"
    using split_char_nonempty [of "CHR '':''" ?rest] by (cases "split_char CHR '':'' ?rest") auto
  have "w = hd (split_char CHR '':'' ?rest)" using ws by simp
  then have w: "w = label_segment line" by (simp add: hd_split_char label_segment_def)
  from split_char_first [OF assms] ws
  have "split_char CHR '':'' line = takeWhile (\<lambda>c. c \<noteq> CHR '':'') line # w # ws" by simp
  then show ?thesis by (simp add: marker_label_def w)
qed

lemma replace_py_dash_hd:
  "replace_py ''---'' [] t \<noteq> [] \<Longrightarrow> hd (replace_py ''---'' [] t) = CHR ''-'' \<Longrightarrow>
   t \<noteq> [] \<and> hd t = CHR ''-''"
proof -
  assume ne: "replace_py ''---'' [] t \<noteq> []" and h: "hd (replace_py ''---'' [] t) = CHR ''-''"
  have tne: "t \<noteq> []" using ne by (auto simp: replace_py.simps [of _ _ "[]"])
  show ?thesis
  proof (cases "startswith t ''---''")
    case True
    then show ?thesis using tne by (cases t) auto
  next
    case False
    then have "replace_py ''---'' [] t = hd t # replace_py ''---'' [] (tl t)"
      using tne by (subst replace_py.simps) simp
    with h tne show ?thesis by simp
  qed
qed

lemma startswith_Cons:
  "startswith s (p # ps) \<longleftrightarrow> s \<noteq> [] \<and> hd s = p \<and> startswith (tl s) ps"
  by (cases s) auto

lemma replace_py_dash_hd2:
  assumes "startswith (replace_py ''---'' [] t) ''--''"
  shows "startswith t ''--''"
proof (cases "startswith t ''---''")
  case True
  then show ?thesis by (simp add: startswith_Cons)
next
  case False
  let ?r = "replace_py ''---'' [] t"
  from assms have ne: "?r \<noteq> []" by (simp add: startswith_Cons)
  have tne: "t \<noteq> []"
  proof
    assume "t = []"
    then have "?r = []" by (simp add: replace_py.simps [of _ _ "[]"])
    with ne show False by simp
  qed
  have eq: "?r = hd t # replace_py ''---'' [] (tl t)"
    using False tne by (subst replace_py.simps) simp
  from assms have "hd ?r = CHR ''-''" and "tl ?r \<noteq> []" and "hd (tl ?r) = CHR ''-''"
    by (simp_all add: startswith_Cons)
  with eq have h1: "hd t = CHR ''-''"
    and h2: "replace_py ''---'' [] (tl t) \<noteq> []"
    and h3: "hd (replace_py ''---'' [] (tl t)) = CHR ''-''" by simp_all
  from h2 h3 have "tl t \<noteq> [] \<and> hd (tl t) = CHR ''-''" by (rule replace_py_dash_hd)
  with h1 tne show ?thesis by (simp add: startswith_Cons)
qed

lemma replace_py_no_dashes: "\<not> contains (replace_py ''---'' [] s) ''---''"
proof (induction s rule: length_induct)
  case (1 s)
  show ?case
  proof (cases "s = []")
    case True
    then show ?thesis by (simp add: replace_py.simps [of _ _ "[]"])
  next
    case ne: False
    show ?thesis
    proof (cases "startswith s ''---''")
      case True
      then have eq: "replace_py ''---'' [] s = replace_py ''---'' [] (drop (length ''---'') s)"
        using ne by (subst replace_py.simps) simp
      have "length (drop (length ''---'') s) < length s" using ne by simp
      with 1 eq show ?thesis by simp
    next
      case False
      have eq: "replace_py ''---'' [] s = hd s # replace_py ''---'' [] (tl s)"
        using ne False by (subst replace_py.simps) simp
      have "length (tl s) < length s" using ne by simp
      with 1 have ih: "\<not> contains (replace_py ''---'' [] (tl s)) ''---''" by simp
      have "\<not> startswith (hd s # replace_py ''---'' [] (tl s)) ''---''"
      proof
        assume a: "startswith (hd s # replace_py ''---'' [] (tl s)) ''---''"
        then have h: "hd s = CHR ''-''"
          and h2: "startswith (replace_py ''---'' [] (tl s)) ''--''"
          by (simp_all add: startswith_Cons)
        from h2 have "startswith (tl s) ''--''" by (rule replace_py_dash_hd2)
        with h ne have "startswith s ''---''" by (simp add: startswith_Cons)
        with False show False by simp
      qed
      with ih eq show ?thesis by simp
    qed
  qed
qed

section \<open>How the read loop treats each kind of attempt\<close>

lemma WAV_START_nonempty: "WAV_START \<noteq> []" and WAV_END_nonempty: "WAV_END \<noteq> []"
  by (simp_all add: WAV_START_def WAV_END_def)

lemma not_startswith_Nil: "p \<noteq> [] \<Longrightarrow> \<not> startswith [] p"
  by (cases p) auto

lemma not_contains_Nil: "p \<noteq> [] \<Longrightarrow> \<not> contains [] p"
  by simp

lemma read_loop_timeout:
  "\<not> in_time a \<Longrightarrow>
   read_loop (a # rest) st = (TimedOut, emit (Print ''ERROR: Timeout waiting for data'') st)"
  by (cases a) (simp add: in_time_def)

lemma read_loop_plain:
  assumes "in_time a" and "is_plain a"
  shows "read_loop (a # rest) st =
         read_loop rest
           (st\<lparr>hex_data := hex_data st @ (if capturing st then line_of a else []),
               trace := trace st @ echo (capturing st) a\<rparr>)"
proof (cases a)
  case (Pair t r)
  show ?thesis
  proof (cases r)
    case (ReadError e)
    with Pair assms show ?thesis
      by (simp add: in_time_def line_of_def echo_def emit_def)
  next
    case (ReadLine raw)
    with Pair assms show ?thesis
      by (simp add: in_time_def is_plain_def line_of_def echo_def emit_def Let_def)
  qed
qed

lemma read_loop_plains:
  "\<forall>a \<in> set as. in_time a \<and> is_plain a \<Longrightarrow>
   read_loop (as @ rest) st =
   read_loop rest
     (st\<lparr>hex_data := hex_data st @ (if capturing st then concat (map line_of as) else []),
         trace := trace st @ concat (map (echo (capturing st)) as)\<rparr>)"
proof (induction as arbitrary: st)
  case Nil
  show ?case by simp
next
  case (Cons a as)
  then have a: "in_time a" "is_plain a" and as: "\<forall>a \<in> set as. in_time a \<and> is_plain a"
    by simp_all
  show ?case
    by (simp add: read_loop_plain [OF a] Cons.IH [OF as])
qed

lemma read_loop_start:
  assumes "in_time a" and "is_start a"
  shows "read_loop (a # rest) st =
         read_loop rest
           (st\<lparr>capturing := True,
               actual_label :=
                 (if CHR '':'' \<in> set (line_of a) then marker_label (line_of a)
                  else actual_label st),
               trace := trace st @
                 (if capturing st then [] else [Print (''  '' @ line_of a)]) @
                 [Print (CHR 0x0A # ''  Receiving WAV data...'')]\<rparr>)"
proof (cases a)
  case (Pair t r)
  show ?thesis
  proof (cases r)
    case (ReadError e)
    with Pair assms show ?thesis
      by (simp add: is_start_def line_of_def not_startswith_Nil WAV_START_nonempty)
  next
    case (ReadLine raw)
    with Pair assms have ne: "strip raw \<noteq> []"
      by (auto simp: is_start_def line_of_def not_startswith_Nil WAV_START_nonempty)
    with ReadLine Pair assms show ?thesis
      by (simp add: in_time_def is_start_def line_of_def emit_def Let_def)
  qed
qed

lemma read_loop_end:
  assumes "in_time a" and "is_end a"
  shows "read_loop (a # rest) st =
         (EndSeen,
          st\<lparr>trace := trace st @ (if capturing st then [] else [Print (''  '' @ line_of a)])\<rparr>)"
proof (cases a)
  case (Pair t r)
  show ?thesis
  proof (cases r)
    case (ReadError e)
    with Pair assms show ?thesis
      by (simp add: is_end_def line_of_def WAV_END_nonempty)
  next
    case (ReadLine raw)
    with Pair assms have ne: "strip raw \<noteq> []"
      by (auto simp: is_end_def line_of_def WAV_END_nonempty)
    with ReadLine Pair assms show ?thesis
      by (simp add: in_time_def is_end_def line_of_def emit_def Let_def)
  qed
qed

lemma kinds_of_attempt: "is_start a \<or> is_end a \<or> is_plain a"
  by (auto simp: is_start_def is_end_def is_plain_def)

text \<open>The loop only prints: whatever it is given, the trace grows by console output.\<close>

lemma read_loop_prints:
  "\<exists>ps. trace (snd (read_loop as st)) = trace st @ map Print ps"
proof (induction as arbitrary: st)
  case Nil
  show ?case by (rule exI [of _ "[]"]) simp
next
  case (Cons a as)
  have step: "\<exists>ps. trace (snd (read_loop as st')) = trace st @ map Print ps"
    if "trace st' = trace st @ map Print qs" for st' qs
  proof -
    from Cons.IH [of st'] obtain ps where
      "trace (snd (read_loop as st')) = trace st' @ map Print ps" by blast
    with that have "trace (snd (read_loop as st')) = trace st @ map Print (qs @ ps)" by simp
    then show ?thesis by blast
  qed
  show ?case
  proof (cases "in_time a")
    case False
    show ?thesis
      unfolding read_loop_timeout [OF False]
      by (rule exI [of _ "[''ERROR: Timeout waiting for data'']"]) (simp add: emit_def)
  next
    case True
    from kinds_of_attempt [of a] consider "is_start a" | "is_end a" | "is_plain a" by blast
    then show ?thesis
    proof cases
      case 1
      show ?thesis
        unfolding read_loop_start [OF True 1]
        by (rule step [where qs = "(if capturing st then [] else [''  '' @ line_of a]) @
              [CHR 0x0A # ''  Receiving WAV data...'']"]) simp
    next
      case 2
      show ?thesis
        unfolding read_loop_end [OF True 2]
        by (rule exI [of _ "if capturing st then [] else [''  '' @ line_of a]"]) simp
    next
      case 3
      have "\<exists>qs. echo (capturing st) a = map Print qs"
      proof (cases "snd a")
        case (ReadError e)
        then have "echo (capturing st) a = map Print [''Read error: '' @ e]"
          by (simp add: echo_def)
        then show ?thesis by blast
      next
        case (ReadLine raw)
        then have "echo (capturing st) a =
              map Print (if strip raw = [] \<or> capturing st then [] else [''  '' @ strip raw])"
          by (simp add: echo_def)
        then show ?thesis by blast
      qed
      then obtain qs where qs: "echo (capturing st) a = map Print qs" by blast
      show ?thesis
        unfolding read_loop_plain [OF True 3]
        by (rule step [where qs = qs]) (simp add: qs)
    qed
  qed
qed

lemma map_Print_no_fs_write: "\<not> (\<exists>x \<in> set (map Print ps). is_fs_write x)"
  by (induction ps) auto

lemma written_files_append: "written_files (xs @ ys) = written_files xs @ written_files ys"
  by (induction xs rule: written_files.induct) auto

lemma written_files_prints: "written_files (map Print ps) = []"
  by (induction ps) auto

lemma init_state_simps:
  "capturing (init_state label) = False"
  "hex_data (init_state label) = []"
  "actual_label (init_state label) = label"
  "written_files (trace (init_state label)) = []"
  "\<not> (\<exists>x \<in> set (trace (init_state label)). is_fs_write x)"
  by (simp_all add: init_state_def)

section \<open>Claims about the read loop\<close>

text \<open>
  Claim C1, as stated: an end-marker line that arrives before any start-marker line never
  terminates the capture.  The code tests for the end marker whether or not a start marker has
  been seen, so a lone end-marker line ends the loop at once, with the loop still not
  capturing.
\<close>

theorem C1_end_before_start_counterexample:
  "read_loop [(0, ReadLine ''---WAV_END---''), (1, ReadLine ''---WAV_START---'')]
     (init_state ''noise'') =
   (EndSeen,
    (init_state ''noise'')
      \<lparr>trace := trace (init_state ''noise'') @ [Print ''  ---WAV_END---'']\<rparr>)
   \<and> \<not> capturing (init_state ''noise'')"
  by (simp add: init_state_def strip_def py_isspace_def WAV_START_def WAV_END_def
        TIMEOUT_def emit_def Let_def)

text \<open>
  Claim C1, amended: when the lines before it are in time and hold no marker, an in-time
  end-marker line ends the loop, whatever follows it; nothing has been accumulated, so
  \<open>capture_sample\<close> reports that no audio data was received, returns \<open>False\<close> and
  touches no file.
\<close>

theorem C1_end_before_start_fails:
  assumes pre: "\<forall>a \<in> set pre. in_time a \<and> is_plain a"
    and e: "in_time e" "is_end e"
  shows "fst (read_loop (pre @ e # rest) (init_state label)) = EndSeen
       \<and> hex_data (snd (read_loop (pre @ e # rest) (init_state label))) = []
       \<and> fst (capture_sample ev (pre @ e # rest) label) = Returned False
       \<and> last (snd (capture_sample ev (pre @ e # rest) label)) =
           Print ''ERROR: No audio data received''
       \<and> \<not> (\<exists>x \<in> set (snd (capture_sample ev (pre @ e # rest) label)). is_fs_write x)"
proof -
  let ?st = "(init_state label)
      \<lparr>trace := trace (init_state label) @ concat (map (echo False) pre) @
                [Print (''  '' @ line_of e)]\<rparr>"
  have loop: "read_loop (pre @ e # rest) (init_state label) = (EndSeen, ?st)"
    by (simp add: read_loop_plains [OF pre] read_loop_end [OF e] init_state_simps)
  have echo_print: "\<not> is_fs_write x" if "x \<in> set (echo False a)" for x a
    using that by (cases "snd a") (auto simp: echo_def split: if_splits)
  have no_write: "\<not> (\<exists>x \<in> set (trace ?st). is_fs_write x)"
    using echo_print by (auto simp: init_state_def)
  show ?thesis
    using no_write by (simp add: capture_sample_def loop init_state_simps)
qed

theorem C1_end_before_start_fails_witness:
  "in_time (0, ReadLine ''boot'') \<and> is_plain (0, ReadLine ''boot'')
   \<and> in_time (1, ReadLine ''---WAV_END---'') \<and> is_end (1, ReadLine ''---WAV_END---'')
   \<and> fst (capture_sample example_env
            ([(0, ReadLine ''boot'')] @ (1, ReadLine ''---WAV_END---'') #
             [(2, ReadLine ''---WAV_START---'')]) ''noise'') = Returned False"
  using C1_end_before_start_fails [of "[(0, ReadLine ''boot'')]" "(1, ReadLine ''---WAV_END---'')"
      "[(2, ReadLine ''---WAV_START---'')]" "''noise''" example_env]
  by (simp add: in_time_def is_plain_def is_end_def line_of_def strip_def py_isspace_def
        WAV_START_def WAV_END_def TIMEOUT_def)

text \<open>
  Claim C2: for decoy lines, then a start marker, then payload lines, then an end marker, all
  in time, the loop leaves by the end marker and the accumulated hex text is the concatenation
  of the payload lines, as the loop reads them, and nothing else.
\<close>

theorem C2_payload_between_markers:
  assumes decoys: "\<forall>a \<in> set decoys. in_time a \<and> is_plain a"
    and s: "in_time s" "is_start s"
    and payload: "\<forall>a \<in> set payload. in_time a \<and> is_plain a"
    and e: "in_time e" "is_end e"
  shows "fst (read_loop (decoys @ s # payload @ e # rest) (init_state label)) = EndSeen
       \<and> hex_data (snd (read_loop (decoys @ s # payload @ e # rest) (init_state label))) =
           concat (map line_of payload)"
  by (simp add: read_loop_plains [OF decoys] read_loop_start [OF s]
        read_loop_plains [OF payload] read_loop_end [OF e] init_state_simps)

theorem C2_payload_between_markers_witness:
  "in_time (0, ReadLine ''I (312) boot: ok'') \<and> is_plain (0, ReadLine ''I (312) boot: ok'')
   \<and> in_time (1, ReadLine ''deadbeef'') \<and> is_plain (1, ReadLine ''deadbeef'')
   \<and> in_time (2, ReadLine ''---WAV_START:noise---'') \<and> is_start (2, ReadLine ''---WAV_START:noise---'')
   \<and> in_time (3, ReadLine ''5249'') \<and> is_plain (3, ReadLine ''5249'')
   \<and> in_time (4, ReadLine ''4646'') \<and> is_plain (4, ReadLine ''4646'')
   \<and> in_time (5, ReadLine ''---WAV_END---'') \<and> is_end (5, ReadLine ''---WAV_END---'')
   \<and> hex_data (snd (read_loop
         ([(0, ReadLine ''I (312) boot: ok''), (1, ReadLine ''deadbeef'')] @
          (2, ReadLine ''---WAV_START:noise---'') #
          [(3, ReadLine ''5249''), (4, ReadLine ''4646'')] @
          (5, ReadLine ''---WAV_END---'') # []) (init_state ''noise''))) = ''52494646''"
  using C2_payload_between_markers
    [of "[(0, ReadLine ''I (312) boot: ok''), (1, ReadLine ''deadbeef'')]"
        "(2, ReadLine ''---WAV_START:noise---'')"
        "[(3, ReadLine ''5249''), (4, ReadLine ''4646'')]"
        "(5, ReadLine ''---WAV_END---'')" "[]" "''noise''"]
  by (simp add: in_time_def is_plain_def is_start_def is_end_def line_of_def strip_def
        py_isspace_def WAV_START_def WAV_END_def TIMEOUT_def)

section \<open>The deadline\<close>

lemma read_loop_skip:
  "\<forall>a \<in> set pre. in_time a \<and> \<not> is_end a \<Longrightarrow>
   \<exists>st'. read_loop (pre @ rest) st = read_loop rest st'"
proof (induction pre arbitrary: st)
  case Nil
  show ?case by auto
next
  case (Cons a pre)
  then have a: "in_time a" "\<not> is_end a"
    and pre: "\<forall>a \<in> set pre. in_time a \<and> \<not> is_end a"
    by simp_all
  from kinds_of_attempt [of a] a consider "is_start a" | "is_plain a" by blast
  then show ?case
  proof cases
    case 1
    show ?thesis
      using Cons.IH [OF pre] by (simp add: read_loop_start [OF a(1) 1])
  next
    case 2
    show ?thesis
      using Cons.IH [OF pre] by (simp add: read_loop_plain [OF a(1) 2])
  qed
qed

lemma capture_sample_prints_only:
  "fst (read_loop as (init_state label)) \<noteq> EndSeen \<Longrightarrow>
   \<not> (\<exists>x \<in> set (snd (capture_sample ev as label)). is_fs_write x)"
proof -
  assume ne: "fst (read_loop as (init_state label)) \<noteq> EndSeen"
  obtain ex st where r: "read_loop as (init_state label) = (ex, st)"
    by (cases "read_loop as (init_state label)")
  from read_loop_prints [of as "init_state label"] r obtain ps where
    tr: "trace st = trace (init_state label) @ map Print ps" by auto
  have "\<not> (\<exists>x \<in> set (trace st). is_fs_write x)"
    unfolding tr using map_Print_no_fs_write [of ps] by (auto simp: init_state_def)
  with ne r show ?thesis
    by (cases ex) (simp_all add: capture_sample_def)
qed

text \<open>
  Claim C4: the deadline is 15 seconds and is tested once at the head of each read attempt.
  When the attempts made within the deadline bring no end marker, the first attempt whose
  elapsed time exceeds the deadline makes \<open>capture_sample\<close> print the timeout error last and
  return \<open>False\<close>, and nothing is created in the file system; this holds in particular for a
  run that never sees a start marker.
\<close>

theorem C4_timeout_fails:
  assumes pre: "\<forall>a \<in> set pre. in_time a \<and> \<not> is_end a"
    and late: "TIMEOUT < fst a"
  shows "TIMEOUT = 15
       \<and> fst (capture_sample ev (pre @ a # rest) label) = Returned False
       \<and> last (snd (capture_sample ev (pre @ a # rest) label)) =
           Print ''ERROR: Timeout waiting for data''
       \<and> \<not> (\<exists>x \<in> set (snd (capture_sample ev (pre @ a # rest) label)). is_fs_write x)
       \<and> written_files (snd (capture_sample ev (pre @ a # rest) label)) = []"
proof -
  from late have a: "\<not> in_time a" by (simp add: in_time_def)
  from read_loop_skip [OF pre, of "a # rest" "init_state label"] obtain st' where
    "read_loop (pre @ a # rest) (init_state label) = read_loop (a # rest) st'" by blast
  then have loop: "read_loop (pre @ a # rest) (init_state label) =
      (TimedOut, emit (Print ''ERROR: Timeout waiting for data'') st')"
    by (simp add: read_loop_timeout [OF a])
  have res: "capture_sample ev (pre @ a # rest) label =
      (Returned False, trace st' @ [Print ''ERROR: Timeout waiting for data''])"
    by (simp add: capture_sample_def loop emit_def)
  have nw: "\<not> (\<exists>x \<in> set (snd (capture_sample ev (pre @ a # rest) label)). is_fs_write x)"
    by (rule capture_sample_prints_only) (simp add: loop)
  have wf: "written_files es = []" if "\<not> (\<exists>x \<in> set es. is_fs_write x)" for es
    using that by (induction es rule: written_files.induct) auto
  from nw wf show ?thesis
    by (simp add: res TIMEOUT_def)
qed

theorem C4_timeout_fails_witness:
  "in_time (3, ReadLine ''I (312) boot: ok'') \<and> \<not> is_end (3, ReadLine ''I (312) boot: ok'')
   \<and> in_time (15, ReadLine ''---WAV_START---'') \<and> \<not> is_end (15, ReadLine ''---WAV_START---'')
   \<and> TIMEOUT < fst (31 / 2, ReadLine ''5249'')
   \<and> capture_sample example_env
        ([(3, ReadLine ''I (312) boot: ok''), (15, ReadLine ''---WAV_START---'')] @
         (31 / 2, ReadLine ''5249'') # [(16, ReadLine ''---WAV_END---'')]) ''noise'' =
      (Returned False,
       trace (init_state ''noise'') @
       [Print ''  I (312) boot: ok'', Print ''  ---WAV_START---'',
        Print (CHR 0x0A # ''  Receiving WAV data...''),
        Print ''ERROR: Timeout waiting for data''])"
  using C4_timeout_fails
    [of "[(3, ReadLine ''I (312) boot: ok''), (15, ReadLine ''---WAV_START---'')]"
        "(31 / 2, ReadLine ''5249'')" example_env "[(16, ReadLine ''---WAV_END---'')]" "''noise''"]
  by (simp add: in_time_def is_end_def line_of_def strip_def py_isspace_def
        WAV_START_def WAV_END_def TIMEOUT_def capture_sample_def emit_def Let_def
        init_state_def)

end
